theory Spec2Isabelle
  imports Complex_Main
begin

section \<open>Conventions of the embedding\<close>

text \<open>
  The grocery price tracker is written in Python. Its floats (prices, weights, scores) are
  embedded as exact rationals, Python's \<open>round(x, 2)\<close> as rounding to the nearest
  hundredth with ties to the even neighbour. A \<open>datetime\<close> is the number of microseconds
  on one clock, a \<open>timedelta\<close> a difference of two of them. Strings are lists of 8-bit
  characters read as code points 0..255. An exception is a value of \<open>py_error\<close>; a
  function that can raise returns \<open>py_error + 'a\<close>, and where it has already written to the
  database before raising, the database is returned next to the error.
\<close>

type_synonym money = rat
type_synonym datetime = int

datatype py_error =
  ZeroDivisionError | ValueError | TypeError | InvalidOperation | OperationalError

definition hours24 :: int where
  "hours24 = 24 * 3600 * 1000000"

text \<open>Truthiness of an \<open>Optional[float]\<close> and of an \<open>Optional[str]\<close>.\<close>

fun truthy_num :: "rat option \<Rightarrow> bool" where
  "truthy_num None = False"
| "truthy_num (Some x) = (x \<noteq> 0)"

fun truthy_str :: "string option \<Rightarrow> bool" where
  "truthy_str None = False"
| "truthy_str (Some s) = (s \<noteq> [])"

section \<open>Characters and whitespace\<close>

text \<open>\<open>str.isspace\<close> on the code points below 256.\<close>

definition is_space :: "char \<Rightarrow> bool" where
  "is_space c = ((of_char c :: nat) \<in> {9, 10, 11, 12, 13, 28, 29, 30, 31, 32, 133, 160})"

text \<open>
  The classes \<open>\d\<close> and \<open>\w\<close> of Python's \<open>re\<close> on a \<open>str\<close> pattern, and
  \<open>str.lower\<close>, on the code points below 256: the decimal digits there are 0 to 9; a
  word character is an alphanumeric one or the underscore.
\<close>

definition is_digit :: "char \<Rightarrow> bool" where
  "is_digit c = (48 \<le> (of_char c :: nat) \<and> (of_char c :: nat) \<le> 57)"

definition is_word :: "char \<Rightarrow> bool" where
  "is_word c =
     (let n = (of_char c :: nat)
      in (48 \<le> n \<and> n \<le> 57) \<or> (65 \<le> n \<and> n \<le> 90) \<or> n = 95 \<or> (97 \<le> n \<and> n \<le> 122)
         \<or> n \<in> {170, 178, 179, 181, 185, 186, 188, 189, 190}
         \<or> (192 \<le> n \<and> n \<le> 214) \<or> (216 \<le> n \<and> n \<le> 246) \<or> 248 \<le> n)"

definition lower_char :: "char \<Rightarrow> char" where
  "lower_char c =
     (let n = (of_char c :: nat)
      in if (65 \<le> n \<and> n \<le> 90) \<or> (192 \<le> n \<and> n \<le> 222 \<and> n \<noteq> 215)
         then char_of (n + 32) else c)"

definition lower :: "string \<Rightarrow> string" where
  "lower s = map lower_char s"

definition lstrip :: "string \<Rightarrow> string" where
  "lstrip s = dropWhile is_space s"

definition rstrip :: "string \<Rightarrow> string" where
  "rstrip s = rev (dropWhile is_space (rev s))"

definition strip :: "string \<Rightarrow> string" where
  "strip s = rstrip (lstrip s)"

text \<open>\<open>str.split()\<close> without arguments and \<open>sep.join\<close>.\<close>

fun split_ws :: "string \<Rightarrow> string \<Rightarrow> string list" where
  "split_ws cur [] = (if cur = [] then [] else [rev cur])"
| "split_ws cur (c # cs) =
     (if is_space c then (if cur = [] then split_ws [] cs else rev cur # split_ws [] cs)
      else split_ws (c # cur) cs)"

definition split :: "string \<Rightarrow> string list" where
  "split s = split_ws [] s"

fun join :: "string \<Rightarrow> string list \<Rightarrow> string" where
  "join sep [] = []"
| "join sep [w] = w"
| "join sep (w # v # ws) = w @ sep @ join sep (v # ws)"

section \<open>Regular expressions\<close>

text \<open>
  The fragment of \<open>re\<close> that the program's patterns use. A position in the subject is the
  character before it, if any, and the rest of the subject. \<open>ends r ic st\<close> lists, in the
  order in which the backtracking matcher tries them (alternatives left to right, repetition
  greedy), the positions at which a match of \<open>r\<close> begun at \<open>st\<close> can end; \<open>ic\<close> is
  \<open>re.IGNORECASE\<close>.
\<close>

datatype cclass = Digit | Space | Word

datatype regex =
    Lit char
  | Cls cclass
  | NotIn "cclass list" "char list"
  | Seq regex regex
  | Alt regex regex
  | Star regex
  | WordB
  | Eps

type_synonym position = "char option \<times> string"

fun in_class :: "cclass \<Rightarrow> char \<Rightarrow> bool" where
  "in_class Digit c = is_digit c"
| "in_class Space c = is_space c"
| "in_class Word c = is_word c"

definition step_if :: "(char \<Rightarrow> bool) \<Rightarrow> position \<Rightarrow> position list" where
  "step_if ok st = (case snd st of [] \<Rightarrow> [] | c # cs \<Rightarrow> if ok c then [(Some c, cs)] else [])"

definition at_boundary :: "position \<Rightarrow> bool" where
  "at_boundary st =
     ((case fst st of None \<Rightarrow> False | Some c \<Rightarrow> is_word c)
        \<noteq> (case snd st of [] \<Rightarrow> False | c # cs \<Rightarrow> is_word c))"

fun star_iter :: "(position \<Rightarrow> position list) \<Rightarrow> nat \<Rightarrow> position \<Rightarrow> position list" where
  "star_iter f 0 st = [st]"
| "star_iter f (Suc n) st =
     concat (map (\<lambda>st'. if length (snd st') < length (snd st) then star_iter f n st' else [])
                 (f st)) @ [st]"

primrec ends :: "regex \<Rightarrow> bool \<Rightarrow> position \<Rightarrow> position list" where
  "ends (Lit l) ic st = step_if (\<lambda>c. if ic then lower_char c = lower_char l else c = l) st"
| "ends (Cls k) ic st = step_if (in_class k) st"
| "ends (NotIn ks cs) ic st = step_if (\<lambda>c. \<not> ((\<exists>k \<in> set ks. in_class k c) \<or> c \<in> set cs)) st"
| "ends (Seq r1 r2) ic st = concat (map (ends r2 ic) (ends r1 ic st))"
| "ends (Alt r1 r2) ic st = ends r1 ic st @ ends r2 ic st"
| "ends (Star r) ic st = star_iter (ends r ic) (length (snd st)) st"
| "ends WordB ic st = (if at_boundary st then [st] else [])"
| "ends Eps ic st = [st]"

text \<open>The literal word \<open>w\<close>, one or more \<open>r\<close>, and a choice among several.\<close>

fun word :: "string \<Rightarrow> regex" where
  "word [] = Eps"
| "word [c] = Lit c"
| "word (c # d # cs) = Seq (Lit c) (word (d # cs))"

definition plus :: "regex \<Rightarrow> regex" where
  "plus r = Seq r (Star r)"

fun alts :: "regex \<Rightarrow> regex list \<Rightarrow> regex" where
  "alts r [] = r"
| "alts r (q # rs) = Alt r (alts q rs)"

text \<open>
  \<open>match_at\<close> is the match at one position, the first in the matcher's order.
  \<open>re_search\<close> tries the positions from left to right. \<open>re_sub\<close> and \<open>re_findall\<close>
  take the leftmost matches that do not overlap; none of the program's patterns matches the
  empty string, and a match that consumes nothing is passed over here.
\<close>

definition match_at :: "regex \<Rightarrow> bool \<Rightarrow> position \<Rightarrow> position option" where
  "match_at r ic st = (case ends r ic st of [] \<Rightarrow> None | e # es \<Rightarrow> Some e)"



function sub_from :: "regex \<Rightarrow> string \<Rightarrow> char option \<Rightarrow> string \<Rightarrow> string" where
  "sub_from r repl prev [] = []"
| "sub_from r repl prev (c # cs) =
     (case match_at r False (prev, c # cs) of
        Some (prev', rest) \<Rightarrow>
          if length rest < length (c # cs) then repl @ sub_from r repl prev' rest
          else c # sub_from r repl (Some c) cs
      | None \<Rightarrow> c # sub_from r repl (Some c) cs)"
  by pat_completeness auto
termination
  by (relation "measure (\<lambda>(r, repl, prev, s). length s)") auto

definition re_sub :: "regex \<Rightarrow> string \<Rightarrow> string \<Rightarrow> string" where
  "re_sub r repl s = sub_from r repl None s"



section \<open>Rounding\<close>

text \<open>\<open>round(x, 2)\<close>: the nearest hundredth, a tie going to the even one.\<close>

definition round_half_even :: "rat \<Rightarrow> int" where
  "round_half_even x =
     (let f = \<lfloor>x\<rfloor>; d = x - of_int f
      in if d < 1 / 2 then f else if d > 1 / 2 then f + 1 else if even f then f else f + 1)"

definition round2 :: "rat \<Rightarrow> rat" where
  "round2 x = of_int (round_half_even (x * 100)) / 100"

section \<open>Data model\<close>

text \<open>\<open>ScrapedProduct\<close> of \<open>server/app/scrapers/base_scraper.py\<close>.\<close>

record ScrapedProduct =
  sp_name :: string
  sp_price :: money
  sp_original_price :: "money option"
  sp_price_per_kg :: "money option"
  sp_pack_size :: "string option"
  sp_pack_unit :: "string option"
  sp_weight_value :: "rat option"
  sp_weight_unit :: "string option"
  sp_brand :: "string option"
  sp_category :: "string option"
  sp_subcategory :: "string option"
  sp_description :: "string option"
  sp_image_url :: "string option"
  sp_product_url :: "string option"
  sp_external_id :: "string option"
  sp_is_available :: bool
  sp_is_discounted :: bool
  sp_is_on_sale :: bool
  sp_discount_percentage :: "rat option"
  sp_keywords :: "string list"

text \<open>The rows of \<open>server/app/models\<close>: \<open>Product\<close>, \<open>Price\<close>, \<open>PriceHistory\<close>, \<open>Store\<close>.\<close>

record Product =
  p_id :: nat
  p_name :: string
  p_category :: string
  p_subcategory :: "string option"
  p_keywords :: "string option"
  p_description :: "string option"
  p_image_url :: "string option"
  p_unit :: "string option"
  p_weight :: "rat option"
  p_brand :: "string option"
  p_is_organic :: bool
  p_store_id :: nat
  p_external_id :: "string option"
  p_updated_at :: "datetime option"

record Price =
  pr_product_id :: nat
  pr_store_id :: nat
  pr_price :: money
  pr_original_price :: "money option"
  pr_price_per_kg :: "money option"
  pr_discount_percentage :: "rat option"
  pr_pack_size :: "string option"
  pr_pack_unit :: "string option"
  pr_weight_value :: "rat option"
  pr_weight_unit :: "string option"
  pr_is_available :: bool
  pr_is_discounted :: bool
  pr_is_on_sale :: bool
  pr_product_url :: "string option"
  pr_image_url :: "string option"
  pr_scraped_at :: datetime

record PriceHistory =
  ph_product_id :: nat
  ph_store_id :: nat
  ph_price :: money
  ph_original_price :: "money option"
  ph_price_per_kg :: "money option"
  ph_discount_percentage :: "rat option"
  ph_pack_size :: "string option"
  ph_pack_unit :: "string option"
  ph_is_available :: bool
  ph_is_discounted :: bool
  ph_change_type :: string
  ph_change_amount :: rat
  ph_change_percentage :: rat
  ph_recorded_at :: datetime

record Store =
  st_id :: nat
  st_last_scraped :: "datetime option"
  st_total_scrapes :: int
  st_failed_scrapes :: int
  st_success_rate :: rat

text \<open>
  The tables a session sees. A query without \<open>order_by\<close> returns rows in list order;
  \<open>db.add\<close> appends.
\<close>

record database =
  products :: "Product list"
  prices :: "Price list"
  price_history :: "PriceHistory list"
  stores :: "Store list"

section \<open>Names: normalisation, similarity, duplicates\<close>

text \<open>
  \<open>DataProcessor._normalize_product_name\<close> with its three substitutions
  \<open>\b(pack|pcs|pieces|kg|g|ml|l)\b\<close>, \<open>[^\w\s]\<close> and \<open>\s+\<close>.
\<close>

definition unit_token_re :: regex where
  "unit_token_re =
     Seq WordB
       (Seq (alts (word ''pack'')
               [word ''pcs'', word ''pieces'', word ''kg'', word ''g'', word ''ml'', word ''l''])
            WordB)"

definition special_char_re :: regex where
  "special_char_re = NotIn [Word, Space] []"

definition spaces_re :: regex where
  "spaces_re = plus (Cls Space)"

definition normalize_product_name :: "string \<Rightarrow> string" where
  "normalize_product_name name =
     (if name = [] then []
      else
        let normalized = join '' '' (split (strip (lower name)));
            normalized = re_sub unit_token_re [] normalized;
            normalized = re_sub special_char_re [] normalized
        in strip (re_sub spaces_re '' '' normalized))"

text \<open>
  \<open>DataProcessor._calculate_similarity\<close>: the Jaccard index of the two sets of words. The
  last division is guarded in the source by \<open>if union else 0.0\<close>.
\<close>

definition calculate_similarity :: "string \<Rightarrow> string \<Rightarrow> rat" where
  "calculate_similarity name1 name2 =
     (if name1 = [] \<or> name2 = [] then 0
      else
        let words1 = set (split name1); words2 = set (split name2)
        in if words1 = {} \<and> words2 = {} then 1
           else if words1 \<union> words2 = {} then 0
           else of_nat (card (words1 \<inter> words2)) / of_nat (card (words1 \<union> words2)))"

definition similarity_threshold :: rat where
  "similarity_threshold = 8 / 10"




section \<open>Validation\<close>

text \<open>
  \<open>BaseScraper.validate_product\<close>: the verdict and the product as the call leaves it
  (the call clears \<open>original_price\<close> and \<open>is_discounted\<close> in place).
\<close>

fun validate_product :: "ScrapedProduct option \<Rightarrow> bool \<times> ScrapedProduct option" where
  "validate_product None = (False, None)"
| "validate_product (Some product) =
     (if sp_name product = [] \<or> strip (sp_name product) = [] then (False, Some product)
      else if sp_price product \<le> 0 then (False, Some product)
      else if truthy_num (sp_original_price product)
              \<and> the (sp_original_price product) < sp_price product
      then (True, Some (product\<lparr>sp_original_price := None, sp_is_discounted := False\<rparr>))
      else (True, Some product))"

text \<open>\<open>DataProcessor._validate_scraped_product\<close>.\<close>

definition validate_scraped_product :: "ScrapedProduct \<Rightarrow> bool" where
  "validate_scraped_product product =
     (if sp_name product = [] \<or> length (strip (sp_name product)) = 0 then False
      else if sp_price product \<le> 0 then False
      else if truthy_num (sp_original_price product)
              \<and> the (sp_original_price product) < sp_price product then False
      else True)"

section \<open>The price gate and the history entry\<close>

text \<open>
  \<open>DataProcessor._should_update_price\<close>, with \<open>now\<close> the value of \<open>datetime.now()\<close>.
  The division raises on a current price of zero.
\<close>

definition price_change_threshold :: rat where
  "price_change_threshold = 5 / 100"

definition should_update_price :: "datetime \<Rightarrow> Price \<Rightarrow> ScrapedProduct \<Rightarrow> py_error + bool" where
  "should_update_price now current_price scraped_product =
     (if now - pr_scraped_at current_price > hours24 then Inr True
      else if pr_price current_price = 0 then Inl ZeroDivisionError
      else
        let price_change = \<bar>pr_price current_price - sp_price scraped_product\<bar>
                             / pr_price current_price
        in if price_change \<ge> price_change_threshold then Inr True
           else if pr_is_available current_price \<noteq> sp_is_available scraped_product then Inr True
           else if pr_is_discounted current_price \<noteq> sp_is_discounted scraped_product then Inr True
           else Inr False)"

text \<open>The row built by \<open>DataProcessor._create_price_history_entry\<close>.\<close>

definition history_change_percentage :: "Price \<Rightarrow> ScrapedProduct \<Rightarrow> rat" where
  "history_change_percentage old_price scraped_product =
     (if pr_price old_price > 0
      then ((sp_price scraped_product - pr_price old_price) / pr_price old_price) * 100
      else 0)"

definition history_change_type :: "Price \<Rightarrow> ScrapedProduct \<Rightarrow> string" where
  "history_change_type old_price scraped_product =
     (let price_change = sp_price scraped_product - pr_price old_price;
          change_percentage = history_change_percentage old_price scraped_product;
          change_type = (if \<bar>change_percentage\<bar> \<ge> 1
                         then (if price_change > 0 then ''increase'' else ''decrease'')
                         else ''stable'')
      in if \<not> sp_is_available scraped_product then ''unavailable''
         else if \<not> pr_is_available old_price \<and> sp_is_available scraped_product then ''new''
         else change_type)"

definition history_entry :: "Price \<Rightarrow> ScrapedProduct \<Rightarrow> PriceHistory" where
  "history_entry old_price scraped_product =
     \<lparr> ph_product_id = pr_product_id old_price,
       ph_store_id = pr_store_id old_price,
       ph_price = pr_price old_price,
       ph_original_price = pr_original_price old_price,
       ph_price_per_kg = pr_price_per_kg old_price,
       ph_discount_percentage = pr_discount_percentage old_price,
       ph_pack_size = pr_pack_size old_price,
       ph_pack_unit = pr_pack_unit old_price,
       ph_is_available = pr_is_available old_price,
       ph_is_discounted = pr_is_discounted old_price,
       ph_change_type = history_change_type old_price scraped_product,
       ph_change_amount = sp_price scraped_product - pr_price old_price,
       ph_change_percentage = history_change_percentage old_price scraped_product,
       ph_recorded_at = pr_scraped_at old_price \<rparr>"

definition create_price_history_entry :: "database \<Rightarrow> Price \<Rightarrow> ScrapedProduct \<Rightarrow> database" where
  "create_price_history_entry db old_price scraped_product =
     db\<lparr>price_history := price_history db @ [history_entry old_price scraped_product]\<rparr>"

section \<open>Price per standard unit\<close>

text \<open>\<open>PriceCalculator\<close> of \<open>server/app/utils/price_calculator.py\<close>.\<close>

definition UNIT_CONVERSIONS_TO_KG :: "(string \<times> rat) list" where
  "UNIT_CONVERSIONS_TO_KG =
     [(''g'', 1 / 1000), (''gram'', 1 / 1000), (''grams'', 1 / 1000),
      (''kg'', 1), (''kilogram'', 1), (''kilograms'', 1),
      (''lb'', 453592 / 1000000), (''pound'', 453592 / 1000000), (''pounds'', 453592 / 1000000),
      (''oz'', 283495 / 10000000), (''ounce'', 283495 / 10000000),
      (''ounces'', 283495 / 10000000)]"

definition UNIT_CONVERSIONS_TO_L :: "(string \<times> rat) list" where
  "UNIT_CONVERSIONS_TO_L =
     [(''ml'', 1 / 1000), (''milliliter'', 1 / 1000), (''milliliters'', 1 / 1000),
      (''l'', 1), (''liter'', 1), (''liters'', 1),
      (''fl oz'', 295735 / 10000000), (''fluid ounce'', 295735 / 10000000)]"

definition convert_to_standard_unit :: "rat \<Rightarrow> string \<Rightarrow> rat option" where
  "convert_to_standard_unit v unit_in =
     (if unit_in = [] then None
      else
        let u = strip (lower unit_in)
        in case map_of UNIT_CONVERSIONS_TO_KG u of
             Some k \<Rightarrow> Some (v * k)
           | None \<Rightarrow> (case map_of UNIT_CONVERSIONS_TO_L u of
                         Some k \<Rightarrow> Some (v * k)
                       | None \<Rightarrow> None))"

definition calculate_price_per_unit :: "rat \<Rightarrow> rat \<Rightarrow> string \<Rightarrow> rat option" where
  "calculate_price_per_unit price weight unit_in =
     (if weight = 0 \<or> weight \<le> 0 then None
      else case convert_to_standard_unit weight unit_in of
             None \<Rightarrow> None
           | Some standard_weight \<Rightarrow>
               if standard_weight = 0 then None else Some (round2 (price / standard_weight)))"

section \<open>Reconciliation of one record\<close>

text \<open>
  \<open>DataProcessor._create_price_entry\<close>. The column \<open>scraped_at\<close> has the server default
  \<open>now()\<close>; the row gets the time \<open>now\<close> of the run that inserts it.
\<close>

definition price_entry :: "nat \<Rightarrow> nat \<Rightarrow> ScrapedProduct \<Rightarrow> datetime \<Rightarrow> Price" where
  "price_entry product_id store_id scraped_product now =
     \<lparr> pr_product_id = product_id,
       pr_store_id = store_id,
       pr_price = sp_price scraped_product,
       pr_original_price = sp_original_price scraped_product,
       pr_price_per_kg =
         (if truthy_num (sp_weight_value scraped_product)
             \<and> truthy_str (sp_weight_unit scraped_product)
          then calculate_price_per_unit (sp_price scraped_product)
                 (the (sp_weight_value scraped_product)) (the (sp_weight_unit scraped_product))
          else None),
       pr_discount_percentage = sp_discount_percentage scraped_product,
       pr_pack_size = sp_pack_size scraped_product,
       pr_pack_unit = sp_pack_unit scraped_product,
       pr_weight_value = sp_weight_value scraped_product,
       pr_weight_unit = sp_weight_unit scraped_product,
       pr_is_available = sp_is_available scraped_product,
       pr_is_discounted = sp_is_discounted scraped_product,
       pr_is_on_sale = sp_is_on_sale scraped_product,
       pr_product_url = sp_product_url scraped_product,
       pr_image_url = sp_image_url scraped_product,
       pr_scraped_at = now \<rparr>"

definition create_price_entry ::
  "database \<Rightarrow> nat \<Rightarrow> nat \<Rightarrow> ScrapedProduct \<Rightarrow> datetime \<Rightarrow> database" where
  "create_price_entry db product_id store_id scraped_product now =
     db\<lparr>prices := prices db @ [price_entry product_id store_id scraped_product now]\<rparr>"





text \<open>
  \<open>DataProcessor._update_existing_product\<close>. Its first part is six \<open>if\<close> statements, one
  for each field that may be filled, run in the order of the source; \<open>save_product\<close> writes
  the changed object back to its row.
\<close>

definition fill_description :: "ScrapedProduct \<Rightarrow> Product \<Rightarrow> Product" where
  "fill_description scraped_product product =
     (if truthy_str (sp_description scraped_product) \<and> \<not> truthy_str (p_description product)
      then product\<lparr>p_description := sp_description scraped_product\<rparr> else product)"

definition fill_image_url :: "ScrapedProduct \<Rightarrow> Product \<Rightarrow> Product" where
  "fill_image_url scraped_product product =
     (if truthy_str (sp_image_url scraped_product) \<and> \<not> truthy_str (p_image_url product)
      then product\<lparr>p_image_url := sp_image_url scraped_product\<rparr> else product)"

definition fill_brand :: "ScrapedProduct \<Rightarrow> Product \<Rightarrow> Product" where
  "fill_brand scraped_product product =
     (if truthy_str (sp_brand scraped_product) \<and> \<not> truthy_str (p_brand product)
      then product\<lparr>p_brand := sp_brand scraped_product\<rparr> else product)"

definition fill_weight :: "ScrapedProduct \<Rightarrow> Product \<Rightarrow> Product" where
  "fill_weight scraped_product product =
     (if truthy_num (sp_weight_value scraped_product) \<and> \<not> truthy_num (p_weight product)
      then product\<lparr>p_weight := sp_weight_value scraped_product\<rparr> else product)"

definition fill_unit :: "ScrapedProduct \<Rightarrow> Product \<Rightarrow> Product" where
  "fill_unit scraped_product product =
     (if truthy_str (sp_pack_unit scraped_product) \<and> \<not> truthy_str (p_unit product)
      then product\<lparr>p_unit := sp_pack_unit scraped_product\<rparr> else product)"

definition fill_external_id :: "ScrapedProduct \<Rightarrow> Product \<Rightarrow> Product" where
  "fill_external_id scraped_product product =
     (if truthy_str (sp_external_id scraped_product) \<and> \<not> truthy_str (p_external_id product)
      then product\<lparr>p_external_id := sp_external_id scraped_product\<rparr> else product)"

definition merge_fields :: "Product \<Rightarrow> ScrapedProduct \<Rightarrow> Product" where
  "merge_fields product scraped_product =
     fill_external_id scraped_product
       (fill_unit scraped_product
          (fill_weight scraped_product
             (fill_brand scraped_product
                (fill_image_url scraped_product
                   (fill_description scraped_product product)))))"

definition save_product :: "database \<Rightarrow> Product \<Rightarrow> database" where
  "save_product db product =
     db\<lparr>products := map (\<lambda>q. if p_id q = p_id product then product else q) (products db)\<rparr>"

text \<open>
  The row that \<open>order_by(Price.scraped_at.desc()).first()\<close> returns; among rows of one
  timestamp, the earliest inserted.
\<close>

fun latest :: "Price list \<Rightarrow> Price option" where
  "latest [] = None"
| "latest (x # xs) =
     (case latest xs of
        None \<Rightarrow> Some x
      | Some y \<Rightarrow> if pr_scraped_at y > pr_scraped_at x then Some y else Some x)"

definition current_price_of :: "database \<Rightarrow> Product \<Rightarrow> Price option" where
  "current_price_of db product =
     latest (filter (\<lambda>r. pr_product_id r = p_id product \<and> pr_store_id r = p_store_id product)
               (prices db))"

definition update_existing_product ::
  "database \<Rightarrow> Product \<Rightarrow> ScrapedProduct \<Rightarrow> datetime \<Rightarrow> database \<times> (py_error + bool)" where
  "update_existing_product db product0 scraped_product now =
     (let product = merge_fields product0 scraped_product;
          db1 = save_product db product
      in case current_price_of db1 product of
           None \<Rightarrow>
             (save_product
                (create_price_entry db1 (p_id product) (p_store_id product) scraped_product now)
                (product\<lparr>p_updated_at := Some now\<rparr>),
              Inr True)
         | Some current_price \<Rightarrow>
             (case should_update_price now current_price scraped_product of
                Inl e \<Rightarrow> (db1, Inl e)
              | Inr True \<Rightarrow>
                  (save_product
                     (create_price_history_entry
                        (create_price_entry db1 (p_id product) (p_store_id product)
                           scraped_product now)
                        current_price scraped_product)
                     (product\<lparr>p_updated_at := Some now\<rparr>),
                   Inr True)
              | Inr False \<Rightarrow>
                  (save_product db1 (product\<lparr>p_updated_at := Some now\<rparr>), Inr False)))"

text \<open>\<open>DataProcessor._process_single_product\<close> and the dictionary it returns.\<close>

record process_result =
  action :: "string option"
  product_id :: "nat option"
  price_updated :: bool


definition lookup_product :: "database \<Rightarrow> nat \<Rightarrow> Product option" where
  "lookup_product db pid = find (\<lambda>q. p_id q = pid) (products db)"

section \<open>Price text\<close>

text \<open>\<open>str.replace\<close> of one character, \<open>str.count\<close>, and \<open>str.split(sep)\<close>.\<close>

definition replace_char :: "char \<Rightarrow> string \<Rightarrow> string \<Rightarrow> string" where
  "replace_char c new s = concat (map (\<lambda>x. if x = c then new else [x]) s)"

definition count_char :: "char \<Rightarrow> string \<Rightarrow> nat" where
  "count_char c s = length (filter (\<lambda>x. x = c) s)"

fun split_on_acc :: "char \<Rightarrow> string \<Rightarrow> string \<Rightarrow> string list" where
  "split_on_acc sep cur [] = [rev cur]"
| "split_on_acc sep cur (c # cs) =
     (if c = sep then rev cur # split_on_acc sep [] cs else split_on_acc sep (c # cur) cs)"

definition split_on :: "char \<Rightarrow> string \<Rightarrow> string list" where
  "split_on sep s = split_on_acc sep [] s"

text \<open>
  Both \<open>clean_price\<close> functions first delete every character outside \<open>[\d.,]\<close> and then
  hand the rest to \<open>float\<close> or to \<open>Decimal\<close>. On a string of digits, full stops and
  commas the two constructors accept the same texts: digits with at most one full stop and at
  least one digit; \<open>float\<close> raises \<open>ValueError\<close> on the others, \<open>Decimal\<close>
  raises \<open>InvalidOperation\<close>. \<open>number_of_text\<close> is that reading, the value exact;
  it is applied to such strings only.
\<close>

definition digit_value :: "char \<Rightarrow> nat" where
  "digit_value c = (of_char c :: nat) - 48"

definition digits_value :: "string \<Rightarrow> nat" where
  "digits_value ds = foldl (\<lambda>n c. 10 * n + digit_value c) 0 ds"

definition number_of_text :: "string \<Rightarrow> rat option" where
  "number_of_text s =
     (if \<not> list_all (\<lambda>c. is_digit c \<or> c = CHR ''.'') s then None
      else case split_on (CHR ''.'') s of
             [int_part] \<Rightarrow> if int_part = [] then None else Some (of_nat (digits_value int_part))
           | [int_part, frac_part] \<Rightarrow>
               if int_part = [] \<and> frac_part = [] then None
               else Some (of_nat (digits_value int_part)
                          + of_nat (digits_value frac_part) / 10 ^ length frac_part)
           | _ \<Rightarrow> None)"

definition py_float :: "string \<Rightarrow> py_error + rat" where
  "py_float s = (case number_of_text s of None \<Rightarrow> Inl ValueError | Some v \<Rightarrow> Inr v)"

definition py_Decimal :: "string \<Rightarrow> py_error + rat" where
  "py_Decimal s = (case number_of_text s of None \<Rightarrow> Inl InvalidOperation | Some v \<Rightarrow> Inr v)"

definition price_chars_re :: regex where
  "price_chars_re = NotIn [Digit] ''.,''"

text \<open>
  \<open>BaseScraper.clean_price\<close> of \<open>server/app/scrapers/base_scraper.py\<close>: the body of the
  \<open>try\<close>, then the function with its handler for \<open>ValueError\<close> and \<open>TypeError\<close>.
\<close>

definition clean_price_try :: "string \<Rightarrow> py_error + rat" where
  "clean_price_try price_text =
     (let cleaned = re_sub price_chars_re [] (strip price_text);
          cleaned =
            (if CHR '','' \<in> set cleaned \<and> CHR ''.'' \<in> set cleaned
             then replace_char (CHR '','') [] cleaned
             else if CHR '','' \<in> set cleaned \<and> count_char (CHR '','') cleaned = 1
                     \<and> length (split_on (CHR '','') cleaned ! 1) \<le> 2
             then replace_char (CHR '','') ''.'' cleaned
             else cleaned)
      in case py_float cleaned of Inl e \<Rightarrow> Inl e | Inr v \<Rightarrow> Inr (round2 v))"

definition clean_price :: "string \<Rightarrow> py_error + rat" where
  "clean_price price_text =
     (if price_text = [] then Inr 0
      else case clean_price_try price_text of
             Inl ValueError \<Rightarrow> Inr 0
           | Inl TypeError \<Rightarrow> Inr 0
           | Inl e \<Rightarrow> Inl e
           | Inr v \<Rightarrow> Inr v)"

text \<open>
  \<open>BaseScraper.clean_price\<close> of \<open>backend/app/scrapers/base_scraper.py\<close>, which returns a
  \<open>Decimal\<close> and catches every \<open>Exception\<close>.
\<close>

definition backend_clean_price_try :: "string \<Rightarrow> py_error + rat" where
  "backend_clean_price_try price_text0 =
     (let price_text = re_sub price_chars_re [] price_text0;
          price_text = replace_char (CHR '','') ''.'' price_text;
          parts = split_on (CHR ''.'') price_text;
          price_text = (if length parts > 2
                        then concat (butlast parts) @ ''.'' @ last parts
                        else price_text)
      in py_Decimal price_text)"

definition backend_clean_price :: "string \<Rightarrow> py_error + rat" where
  "backend_clean_price price_text =
     (case backend_clean_price_try price_text of
        Inl e \<Rightarrow> Inr 0
      | Inr v \<Rightarrow> Inr v)"

section \<open>Reconciliation of one run\<close>















section \<open>Category classifier\<close>

text \<open>
  \<open>server/app/utils/category_classifier.py\<close>. The classifier is built once at import
  and its tables are never written afterwards, so a classification is a function of the four
  arguments of \<open>classify_product\<close>.
\<close>

datatype ProductCategory =
    VEGETABLES | FRUITS | MEAT | DAIRY | BAKERY | BEVERAGES | PANTRY | SNACKS | FROZEN
  | HOUSEHOLD | PERSONAL_CARE | BABY_CARE | HEALTH | PET | ELECTRONICS | CLOTHING | UNKNOWN


















































section \<open>Sample data\<close>

definition tomato :: ScrapedProduct where
  "tomato =
     \<lparr> sp_name = ''Tomato 1kg'', sp_price = 20, sp_original_price = None,
       sp_price_per_kg = None, sp_pack_size = None, sp_pack_unit = None,
       sp_weight_value = None, sp_weight_unit = None, sp_brand = None, sp_category = None,
       sp_subcategory = None, sp_description = Some ''Vine tomatoes'', sp_image_url = None,
       sp_product_url = None, sp_external_id = Some ''sku-7'', sp_is_available = True,
       sp_is_discounted = False, sp_is_on_sale = False, sp_discount_percentage = None,
       sp_keywords = [] \<rparr>"

definition tomato_product :: Product where
  "tomato_product =
     \<lparr> p_id = 1, p_name = ''Tomato 1kg'', p_category = ''vegetables'', p_subcategory = None,
       p_keywords = None, p_description = None, p_image_url = Some ''t.png'', p_unit = None,
       p_weight = None, p_brand = Some ''Farm'', p_is_organic = False, p_store_id = 3,
       p_external_id = None, p_updated_at = None \<rparr>"

definition tomato_price :: Price where
  "tomato_price = price_entry 1 3 tomato 0"

definition overpriced :: ScrapedProduct where
  "overpriced = tomato\<lparr>sp_price := 30, sp_original_price := Some 25, sp_is_discounted := True\<rparr>"

definition tomato_store :: Store where
  "tomato_store =
     \<lparr> st_id = 3, st_last_scraped = None, st_total_scrapes = 4, st_failed_scrapes = 1,
       st_success_rate = 75 \<rparr>"


definition tomato_db :: database where
  "tomato_db =
     \<lparr> products = [tomato_product], prices = [tomato_price], price_history = [],
       stores = [tomato_store] \<rparr>"



section \<open>Properties of the reconciliation\<close>

lemmas fill_defs = fill_description_def fill_image_url_def fill_brand_def fill_weight_def
  fill_unit_def fill_external_id_def

lemma fill_frame [simp]:
  "p_id (fill_description s P) = p_id P" "p_id (fill_image_url s P) = p_id P"
  "p_id (fill_brand s P) = p_id P" "p_id (fill_weight s P) = p_id P"
  "p_id (fill_unit s P) = p_id P" "p_id (fill_external_id s P) = p_id P"
  "p_store_id (fill_description s P) = p_store_id P" "p_store_id (fill_image_url s P) = p_store_id P"
  "p_store_id (fill_brand s P) = p_store_id P" "p_store_id (fill_weight s P) = p_store_id P"
  "p_store_id (fill_unit s P) = p_store_id P" "p_store_id (fill_external_id s P) = p_store_id P"
  "p_name (fill_description s P) = p_name P" "p_name (fill_image_url s P) = p_name P"
  "p_name (fill_brand s P) = p_name P" "p_name (fill_weight s P) = p_name P"
  "p_name (fill_unit s P) = p_name P" "p_name (fill_external_id s P) = p_name P"
  "p_category (fill_description s P) = p_category P" "p_category (fill_image_url s P) = p_category P"
  "p_category (fill_brand s P) = p_category P" "p_category (fill_weight s P) = p_category P"
  "p_category (fill_unit s P) = p_category P" "p_category (fill_external_id s P) = p_category P"
  by (simp_all add: fill_defs)

lemma fill_other [simp]:
  "p_description (fill_image_url s P) = p_description P"
  "p_description (fill_brand s P) = p_description P"
  "p_description (fill_weight s P) = p_description P"
  "p_description (fill_unit s P) = p_description P"
  "p_description (fill_external_id s P) = p_description P"
  "p_image_url (fill_description s P) = p_image_url P"
  "p_image_url (fill_brand s P) = p_image_url P"
  "p_image_url (fill_weight s P) = p_image_url P"
  "p_image_url (fill_unit s P) = p_image_url P"
  "p_image_url (fill_external_id s P) = p_image_url P"
  "p_brand (fill_description s P) = p_brand P"
  "p_brand (fill_image_url s P) = p_brand P"
  "p_brand (fill_weight s P) = p_brand P"
  "p_brand (fill_unit s P) = p_brand P"
  "p_brand (fill_external_id s P) = p_brand P"
  "p_weight (fill_description s P) = p_weight P"
  "p_weight (fill_image_url s P) = p_weight P"
  "p_weight (fill_brand s P) = p_weight P"
  "p_weight (fill_unit s P) = p_weight P"
  "p_weight (fill_external_id s P) = p_weight P"
  "p_unit (fill_description s P) = p_unit P"
  "p_unit (fill_image_url s P) = p_unit P"
  "p_unit (fill_brand s P) = p_unit P"
  "p_unit (fill_weight s P) = p_unit P"
  "p_unit (fill_external_id s P) = p_unit P"
  "p_external_id (fill_description s P) = p_external_id P"
  "p_external_id (fill_image_url s P) = p_external_id P"
  "p_external_id (fill_brand s P) = p_external_id P"
  "p_external_id (fill_weight s P) = p_external_id P"
  "p_external_id (fill_unit s P) = p_external_id P"
  by (simp_all add: fill_defs)

lemma merge_fields_id [simp]: "p_id (merge_fields P s) = p_id P"
  and merge_fields_store [simp]: "p_store_id (merge_fields P s) = p_store_id P"
  and merge_fields_name [simp]: "p_name (merge_fields P s) = p_name P"
  and merge_fields_category [simp]: "p_category (merge_fields P s) = p_category P"
  by (simp_all add: merge_fields_def)

lemma merge_fields_fields:
  "p_description (merge_fields P s) = (if truthy_str (p_description P) then p_description P
                                   else if truthy_str (sp_description s) then sp_description s
                                   else p_description P)"
  "p_image_url (merge_fields P s) = (if truthy_str (p_image_url P) then p_image_url P
                                 else if truthy_str (sp_image_url s) then sp_image_url s
                                 else p_image_url P)"
  "p_brand (merge_fields P s) = (if truthy_str (p_brand P) then p_brand P
                             else if truthy_str (sp_brand s) then sp_brand s else p_brand P)"
  "p_weight (merge_fields P s) = (if truthy_num (p_weight P) then p_weight P
                              else if truthy_num (sp_weight_value s) then sp_weight_value s
                              else p_weight P)"
  "p_unit (merge_fields P s) = (if truthy_str (p_unit P) then p_unit P
                            else if truthy_str (sp_pack_unit s) then sp_pack_unit s else p_unit P)"
  "p_external_id (merge_fields P s) = (if truthy_str (p_external_id P) then p_external_id P
                                   else if truthy_str (sp_external_id s) then sp_external_id s
                                   else p_external_id P)"
  by (simp_all add: merge_fields_def) (simp_all add: fill_defs)

lemma prices_save_product [simp]: "prices (save_product db P) = prices db"
  and history_save_product [simp]: "price_history (save_product db P) = price_history db"
  and stores_save_product [simp]: "stores (save_product db P) = stores db"
  by (simp_all add: save_product_def)

lemma current_price_of_save [simp]:
  "current_price_of (save_product db Q) P = current_price_of db P"
  by (simp add: current_price_of_def)

lemma current_price_of_merge [simp]:
  "current_price_of db (merge_fields P s) = current_price_of db P"
  by (simp add: current_price_of_def)






lemma find_map_replace:
  "P \<in> set xs \<Longrightarrow> p_id R = k \<Longrightarrow> p_id P = k \<Longrightarrow>
   find (\<lambda>q. p_id q = k) (map (\<lambda>q. if p_id q = k then R else q) xs) = Some R"
  by (induction xs) auto

lemma lookup_save_product:
  "P \<in> set (products db) \<Longrightarrow> p_id R = p_id P \<Longrightarrow> lookup_product (save_product db R) (p_id P) = Some R"
  by (simp add: lookup_product_def save_product_def find_map_replace [of P _ R])

lemma products_create_price_entry [simp]:
  "products (create_price_entry db a b s n) = products db"
  and products_create_history [simp]:
  "products (create_price_history_entry db c s) = products db"
  by (simp_all add: create_price_entry_def create_price_history_entry_def)

lemma set_products_save:
  "P \<in> set (products db) \<Longrightarrow> p_id R = p_id P \<Longrightarrow> R \<in> set (products (save_product db R))"
  by (force simp: save_product_def)

lemma lookup_after_update:
  assumes "P \<in> set (products db)"
  shows "lookup_product (fst (update_existing_product db P s now)) (p_id P) = Some (merge_fields P s)
       \<or> lookup_product (fst (update_existing_product db P s now)) (p_id P)
           = Some ((merge_fields P s)\<lparr>p_updated_at := Some now\<rparr>)"
proof -
  let ?M = "merge_fields P s"
  have in1: "?M \<in> set (products (save_product db ?M))"
    using assms by (simp add: set_products_save)
  have l1: "lookup_product (save_product db ?M) (p_id P) = Some ?M"
    using assms by (simp add: lookup_save_product)
  have l2: "\<And>d :: database. products d = products (save_product db ?M) \<Longrightarrow>
      lookup_product (save_product d (?M\<lparr>p_updated_at := Some now\<rparr>)) (p_id P)
        = Some (?M\<lparr>p_updated_at := Some now\<rparr>)"
  proof -
    fix d :: database assume "products d = products (save_product db ?M)"
    then have "?M \<in> set (products d)" using in1 by simp
    then show "lookup_product (save_product d (?M\<lparr>p_updated_at := Some now\<rparr>)) (p_id P)
        = Some (?M\<lparr>p_updated_at := Some now\<rparr>)"
      using lookup_save_product [of ?M d "?M\<lparr>p_updated_at := Some now\<rparr>"] by simp
  qed
  have l3: "lookup_product (save_product (create_price_entry (save_product db ?M) a b s now)
               (?M\<lparr>p_updated_at := Some now\<rparr>)) (p_id P)
        = Some (?M\<lparr>p_updated_at := Some now\<rparr>)" for a b
    by (rule l2) simp
  have l4: "lookup_product (save_product (create_price_history_entry
               (create_price_entry (save_product db ?M) a b s now) c s)
               (?M\<lparr>p_updated_at := Some now\<rparr>)) (p_id P)
        = Some (?M\<lparr>p_updated_at := Some now\<rparr>)" for a b c
    by (rule l2) simp
  have l5: "lookup_product (save_product (save_product db ?M)
               (?M\<lparr>p_updated_at := Some now\<rparr>)) (p_id P)
        = Some (?M\<lparr>p_updated_at := Some now\<rparr>)"
    by (rule l2) simp
  show ?thesis
  proof (cases "current_price_of db P")
    case None
    then show ?thesis
      by (simp add: update_existing_product_def Let_def l3)
  next
    case (Some c)
    show ?thesis
    proof (cases "should_update_price now c s")
      case (Inl e)
      then show ?thesis using Some
        by (simp add: update_existing_product_def Let_def l1)
    next
      case (Inr b)
      then show ?thesis using Some
        by (cases b) (simp_all add: update_existing_product_def Let_def l4 l5)
    qed
  qed
qed



text \<open>
  Claim C9. After a scraped record is merged into a matched product, each of description,
  image URL, brand, weight, unit and external id keeps its prior value if it was populated,
  and otherwise takes the value of the scraped record if that one is populated; name,
  category and store are unchanged.
\<close>

theorem merge_keeps_populated_fields:
  assumes "P \<in> set (products db)"
  shows "\<exists>P'. lookup_product (fst (update_existing_product db P s now)) (p_id P) = Some P'
           \<and> p_description P' = (if truthy_str (p_description P) then p_description P
                                   else if truthy_str (sp_description s) then sp_description s
                                   else p_description P)
           \<and> p_image_url P' = (if truthy_str (p_image_url P) then p_image_url P
                                 else if truthy_str (sp_image_url s) then sp_image_url s
                                 else p_image_url P)
           \<and> p_brand P' = (if truthy_str (p_brand P) then p_brand P
                             else if truthy_str (sp_brand s) then sp_brand s else p_brand P)
           \<and> p_weight P' = (if truthy_num (p_weight P) then p_weight P
                              else if truthy_num (sp_weight_value s) then sp_weight_value s
                              else p_weight P)
           \<and> p_unit P' = (if truthy_str (p_unit P) then p_unit P
                            else if truthy_str (sp_pack_unit s) then sp_pack_unit s else p_unit P)
           \<and> p_external_id P' = (if truthy_str (p_external_id P) then p_external_id P
                                   else if truthy_str (sp_external_id s) then sp_external_id s
                                   else p_external_id P)
           \<and> p_name P' = p_name P \<and> p_category P' = p_category P
           \<and> p_store_id P' = p_store_id P"
proof -
  let ?M = "merge_fields P s"
  from lookup_after_update [OF assms, of s now]
  show ?thesis
  proof
    assume a: "lookup_product (fst (update_existing_product db P s now)) (p_id P) = Some ?M"
    show ?thesis
      by (rule exI [of _ ?M]) (simp only: a merge_fields_fields merge_fields_name
            merge_fields_store merge_fields_category simp_thms)
  next
    assume a: "lookup_product (fst (update_existing_product db P s now)) (p_id P)
              = Some (?M\<lparr>p_updated_at := Some now\<rparr>)"
    have sel: "p_description (?M\<lparr>p_updated_at := Some now\<rparr>) = p_description ?M"
      "p_image_url (?M\<lparr>p_updated_at := Some now\<rparr>) = p_image_url ?M"
      "p_brand (?M\<lparr>p_updated_at := Some now\<rparr>) = p_brand ?M"
      "p_weight (?M\<lparr>p_updated_at := Some now\<rparr>) = p_weight ?M"
      "p_unit (?M\<lparr>p_updated_at := Some now\<rparr>) = p_unit ?M"
      "p_external_id (?M\<lparr>p_updated_at := Some now\<rparr>) = p_external_id ?M"
      "p_name (?M\<lparr>p_updated_at := Some now\<rparr>) = p_name ?M"
      "p_category (?M\<lparr>p_updated_at := Some now\<rparr>) = p_category ?M"
      "p_store_id (?M\<lparr>p_updated_at := Some now\<rparr>) = p_store_id ?M"
      by simp_all
    show ?thesis
      by (rule exI [of _ "?M\<lparr>p_updated_at := Some now\<rparr>"])
        (simp only: a sel merge_fields_fields merge_fields_name merge_fields_store
           merge_fields_category simp_thms)
  qed
qed


theorem merge_keeps_populated_fields_witness:
  "tomato_product \<in> set (products tomato_db)
   \<and> (\<exists>P'. lookup_product (fst (update_existing_product tomato_db tomato_product tomato 7)) 1
               = Some P'
          \<and> p_image_url P' = Some ''t.png'' \<and> p_brand P' = Some ''Farm''
          \<and> p_description P' = Some ''Vine tomatoes'' \<and> p_external_id P' = Some ''sku-7'')"
proof -
  have mem: "tomato_product \<in> set (products tomato_db)"
    by (simp add: tomato_db_def)
  have f: "p_id tomato_product = 1" "p_image_url tomato_product = Some ''t.png''"
    "p_brand tomato_product = Some ''Farm''" "p_description tomato_product = None"
    "p_external_id tomato_product = None" "sp_description tomato = Some ''Vine tomatoes''"
    "sp_external_id tomato = Some ''sku-7''"
    by (simp_all add: tomato_product_def tomato_def)
  from merge_keeps_populated_fields [OF mem, of tomato 7]
  obtain P' where
    "lookup_product (fst (update_existing_product tomato_db tomato_product tomato 7)) (p_id tomato_product) = Some P'"
    "p_description P' = (if truthy_str (p_description tomato_product) then p_description tomato_product
                                   else if truthy_str (sp_description tomato) then sp_description tomato
                                   else p_description tomato_product)"
    "p_image_url P' = (if truthy_str (p_image_url tomato_product) then p_image_url tomato_product
                                 else if truthy_str (sp_image_url tomato) then sp_image_url tomato
                                 else p_image_url tomato_product)"
    "p_brand P' = (if truthy_str (p_brand tomato_product) then p_brand tomato_product
                             else if truthy_str (sp_brand tomato) then sp_brand tomato else p_brand tomato_product)"
    "p_external_id P' = (if truthy_str (p_external_id tomato_product) then p_external_id tomato_product
                                   else if truthy_str (sp_external_id tomato) then sp_external_id tomato
                                   else p_external_id tomato_product)"
    by blast
  then have "lookup_product (fst (update_existing_product tomato_db tomato_product tomato 7)) 1
               = Some P'
          \<and> p_image_url P' = Some ''t.png'' \<and> p_brand P' = Some ''Farm''
          \<and> p_description P' = Some ''Vine tomatoes'' \<and> p_external_id P' = Some ''sku-7''"
    by (simp add: f)
  then show ?thesis using mem by blast
qed

section \<open>Properties of validation, matching and deduplication\<close>

lemma strip_Nil [simp]: "strip [] = []"
  by (simp add: strip_def lstrip_def rstrip_def)

text \<open>
  Claim C2, as amended. A record with a non-blank name, a positive price and a non-zero
  original price below the price is accepted by \<open>BaseScraper.validate_product\<close>, which
  clears the original price and the discount flag; the record so corrected is accepted by
  \<open>DataProcessor._validate_scraped_product\<close>, which rejects the uncorrected record.
\<close>

theorem discount_self_correction:
  assumes "strip (sp_name r) \<noteq> []" and "0 < sp_price r"
    and "sp_original_price r = Some op" and "op \<noteq> 0" and "op < sp_price r"
  shows "validate_product (Some r)
           = (True, Some (r\<lparr>sp_original_price := None, sp_is_discounted := False\<rparr>))
         \<and> validate_scraped_product (r\<lparr>sp_original_price := None, sp_is_discounted := False\<rparr>)
         \<and> \<not> validate_scraped_product r"
proof -
  have "sp_name r \<noteq> []" using assms(1) by auto
  then show ?thesis using assms
    by (simp add: validate_scraped_product_def)
qed

lemma strip_tomato: "strip ''Tomato 1kg'' = ''Tomato 1kg''"
  by code_simp

theorem discount_self_correction_witness:
  "strip (sp_name overpriced) \<noteq> [] \<and> 0 < sp_price overpriced
   \<and> sp_original_price overpriced = Some 25 \<and> (25::rat) \<noteq> 0 \<and> 25 < sp_price overpriced
   \<and> fst (validate_product (Some overpriced))
   \<and> map_option sp_original_price (snd (validate_product (Some overpriced))) = Some None
   \<and> map_option sp_is_discounted (snd (validate_product (Some overpriced))) = Some False"
proof -
  have h: "strip (sp_name overpriced) \<noteq> []" "0 < sp_price overpriced"
    "sp_original_price overpriced = Some 25" "(25::rat) \<noteq> 0" "25 < sp_price overpriced"
    by (simp_all add: overpriced_def tomato_def strip_tomato)
  show ?thesis
    using discount_self_correction [OF h] h by simp
qed

theorem discount_self_correction_counterexample:
  "0 < sp_price overpriced \<and> sp_original_price overpriced = Some 25
   \<and> 25 < sp_price overpriced \<and> \<not> validate_scraped_product overpriced"
  by (simp add: overpriced_def tomato_def validate_scraped_product_def strip_tomato)

lemma norm_cherry1: "normalize_product_name ''cherry tomatoes 500g'' = ''cherry tomatoes 500g''"
  by code_simp
lemma norm_cherry2: "normalize_product_name ''cherry tomato 500 g'' = ''cherry tomato 500''"
  by code_simp
lemma norm_cherry3: "normalize_product_name ''cherry tomatoes'' = ''cherry tomatoes''"
  by code_simp
lemma norm_beef: "normalize_product_name ''beef tomatoes'' = ''beef tomatoes''"
  by code_simp
lemma sim_cherry: "calculate_similarity ''cherry tomatoes 500g'' ''cherry tomato 500'' = 1 / 5"
  by code_simp
lemma sim_cherry_raw: "calculate_similarity ''cherry tomatoes 500g'' ''cherry tomato 500 g'' = 1 / 6"
  by code_simp
lemma sim_beef: "calculate_similarity ''cherry tomatoes'' ''beef tomatoes'' = 1 / 3"
  by code_simp

text \<open>
  Claim C1, as amended. The similarity of the normalised names of "cherry tomatoes 500g" and
  "cherry tomato 500 g" is 1/5 (1/6 on the names as they stand), that of "cherry tomatoes"
  and "beef tomatoes" is 1/3; all are below the threshold 0.8, so neither pair matches.
\<close>

theorem fuzzy_match_boundary:
  "calculate_similarity (normalize_product_name ''cherry tomatoes 500g'')
      (normalize_product_name ''cherry tomato 500 g'') = 1 / 5
   \<and> calculate_similarity ''cherry tomatoes 500g'' ''cherry tomato 500 g'' = 1 / 6
   \<and> calculate_similarity (normalize_product_name ''cherry tomatoes'')
      (normalize_product_name ''beef tomatoes'') = 1 / 3
   \<and> (1 / 5 :: rat) < similarity_threshold \<and> (1 / 6 :: rat) < similarity_threshold
   \<and> (1 / 3 :: rat) < similarity_threshold"
  by (simp add: norm_cherry1 norm_cherry2 norm_cherry3 norm_beef sim_cherry sim_cherry_raw
        sim_beef similarity_threshold_def)

theorem fuzzy_match_boundary_counterexample:
  "\<not> (calculate_similarity (normalize_product_name ''cherry tomatoes 500g'')
         (normalize_product_name ''cherry tomato 500 g'') \<ge> similarity_threshold)"
  by (simp add: norm_cherry1 norm_cherry2 sim_cherry similarity_threshold_def)




section \<open>Properties of the price text\<close>

lemma number_of_text_nonneg: "number_of_text s = Some v \<Longrightarrow> 0 \<le> v"
  by (auto simp: number_of_text_def split: if_splits list.splits)

lemma round_half_even_nonneg: "0 \<le> x \<Longrightarrow> 0 \<le> round_half_even x"
  by (simp add: round_half_even_def Let_def)

lemma round2_nonneg: "0 \<le> x \<Longrightarrow> 0 \<le> round2 x"
  by (simp add: round2_def round_half_even_nonneg)

lemma clean_price_try_cases:
  "clean_price_try s = Inl ValueError
   \<or> (\<exists>v. 0 \<le> v \<and> clean_price_try s = Inr (round2 v))"
  by (auto simp: clean_price_try_def Let_def py_float_def
        dest: number_of_text_nonneg split: option.splits)

lemma backend_clean_price_try_cases:
  "backend_clean_price_try s = Inl InvalidOperation
   \<or> (\<exists>v. 0 \<le> v \<and> backend_clean_price_try s = Inr v)"
  by (auto simp: backend_clean_price_try_def Let_def py_Decimal_def
        dest: number_of_text_nonneg split: option.splits)

text \<open>
  Claim C10. On every input string both \<open>clean_price\<close> functions return a value and raise
  nothing; the value is not negative; that of the server variant is a whole number of
  hundredths; where the cleaned text cannot be read as a number, the value is 0.
\<close>

theorem clean_price_total_nonneg:
  "(\<exists>r k. clean_price s = Inr r \<and> 0 \<le> r \<and> r = of_int k / 100)
   \<and> (\<exists>d. backend_clean_price s = Inr d \<and> 0 \<le> d)
   \<and> ((\<exists>e. clean_price_try s = Inl e) \<longrightarrow> clean_price s = Inr 0)
   \<and> ((\<exists>e. backend_clean_price_try s = Inl e) \<longrightarrow> backend_clean_price s = Inr 0)"
proof -
  have a: "\<exists>r k. clean_price s = Inr r \<and> 0 \<le> r \<and> r = of_int k / 100"
  proof (cases "s = []")
    case True
    then have "clean_price s = Inr 0 \<and> (0::rat) \<le> 0 \<and> (0::rat) = of_int 0 / 100"
      by (simp add: clean_price_def)
    then show ?thesis by blast
  next
    case False
    from clean_price_try_cases [of s] show ?thesis
    proof
      assume "clean_price_try s = Inl ValueError"
      then have "clean_price s = Inr 0 \<and> (0::rat) \<le> 0 \<and> (0::rat) = of_int 0 / 100"
        using False by (simp add: clean_price_def)
      then show ?thesis by blast
    next
      assume "\<exists>v. 0 \<le> v \<and> clean_price_try s = Inr (round2 v)"
      then obtain v where v: "0 \<le> v" "clean_price_try s = Inr (round2 v)" by blast
      then have "clean_price s = Inr (round2 v) \<and> 0 \<le> round2 v
                 \<and> round2 v = of_int (round_half_even (v * 100)) / 100"
        using False by (simp add: clean_price_def round2_nonneg) (simp add: round2_def)
      then show ?thesis by blast
    qed
  qed
  have b: "\<exists>d. backend_clean_price s = Inr d \<and> 0 \<le> d"
    using backend_clean_price_try_cases [of s]
    by (auto simp: backend_clean_price_def)
  have c: "(\<exists>e. clean_price_try s = Inl e) \<longrightarrow> clean_price s = Inr 0"
    using clean_price_try_cases [of s] by (auto simp: clean_price_def)
  have d: "(\<exists>e. backend_clean_price_try s = Inl e) \<longrightarrow> backend_clean_price s = Inr 0"
    by (auto simp: backend_clean_price_def)
  show ?thesis using a b c d by blast
qed

lemma try_abc: "clean_price_try ''abc'' = Inl ValueError"
  by code_simp
lemma backend_try_abc: "backend_clean_price_try ''abc'' = Inl InvalidOperation"
  by code_simp

theorem clean_price_total_nonneg_witness:
  "(\<exists>e. clean_price_try ''abc'' = Inl e) \<and> clean_price ''abc'' = Inr 0
   \<and> (\<exists>e. backend_clean_price_try ''abc'' = Inl e) \<and> backend_clean_price ''abc'' = Inr 0"
  using clean_price_total_nonneg [of "''abc''"] try_abc backend_try_abc
  by simp

section \<open>Processing a record twice\<close>











lemma find_append_old:
  "find Pr xs = None \<Longrightarrow> \<not> Pr N \<Longrightarrow> find Pr (xs @ [N]) = None"
  by (induction xs) (auto split: if_splits)




















section \<open>Properties of one run\<close>









section \<open>Properties of the classifier\<close>





end
